theory Spec2Isabelle
  imports Main
begin

section \<open>The greeter application: \<^verbatim>\<open>app.py\<close> over a model of the Flask calls it makes\<close>

text \<open>
  The whole program is
  \<^verbatim>\<open>
  from flask import Flask

  app = Flask(__name__)

  @app.route('/') # This defines the route for the root URL
  def home_page():
      return "Hello from my Flask app!"
  \<close>
  The view function \<open>home_page\<close> and the module body \<open>app_py\<close> are translated from
  this source. Everything else below is the part of the imported framework that these
  statements call into (\<open>Flask(...)\<close>, \<open>app.route\<close>, and the request dispatch that
  later calls \<open>home_page\<close>): the framework's own source is not part of the repository,
  so each definition names the Flask or Werkzeug function whose behaviour it follows.
  Two things the framework computes that no statement of \<open>app.py\<close> determines, the
  static-file view and the text of error pages, are parameters (\<open>framework_env\<close>).
  URL matching follows Werkzeug's state-machine matcher (version 2.2 and later).
\<close>

subsection \<open>Requests, responses, exceptions\<close>

text \<open>
  A request as the framework presents it after parsing: \<open>request_method\<close> is the
  method as Werkzeug's request object holds it, which is upper-cased when the object is
  built; \<open>path\<close> is the path of the request target as the server passes it on
  (\<^verbatim>\<open>PATH_INFO\<close>, without the query string).
\<close>

record request =
  request_method :: string
  path :: string
  query_string :: string
  headers :: "(string \<times> string) list"
  body :: string

record response =
  status_code :: nat
  mimetype :: string
  allow :: "string set"
  data :: string

text \<open>
  The HTTP exceptions routing and dispatch can raise. \<open>RequestRedirect p\<close> asks the
  client to repeat the request on the path \<open>p\<close>.
\<close>

datatype http_exception =
    NotFound
  | MethodNotAllowed "string set"
  | RequestRedirect string
  | InternalServerError

fun code :: "http_exception \<Rightarrow> nat" where
  "code NotFound = 404"
| "code (MethodNotAllowed valid_methods) = 405"
| "code (RequestRedirect new_path) = 308"
| "code InternalServerError = 500"

datatype exception =
    HTTPException http_exception
  | AssertionError string
  | ValueError string
  | KeyError string
  | TypeError string
  | OSError string

text \<open>What a view function may return: a string, or a finished response object.\<close>

datatype rv = Str string | Response_rv response

subsection \<open>The application object\<close>

text \<open>
  A URL rule in parsed form. \<open>Literal s\<close> is a rule text without converters, such as
  \<^verbatim>\<open>'/'\<close>. \<open>Path_arg s n\<close> is the text \<open>s\<close> followed by \<^verbatim>\<open><path:n>\<close>, such as
  \<^verbatim>\<open>/static/<path:filename>\<close>.
\<close>

datatype rule_pattern = Literal string | Path_arg string string

definition rule_text :: "rule_pattern \<Rightarrow> string" where
  "rule_text pat =
     (case pat of Literal s \<Rightarrow> s | Path_arg s n \<Rightarrow> s @ ''<path:'' @ n @ ''>'')"

record url_rule =
  pattern :: rule_pattern
  methods :: "string set"
  endpoint :: string
  provide_automatic_options :: bool

text \<open>
  Python function objects stored in the application are named by a constructor;
  \<open>func_name\<close> is the function's \<^verbatim>\<open>__name__\<close> (the static-file view is a lambda).
\<close>

datatype view_function = View_home_page | View_send_static_file

fun func_name :: "view_function \<Rightarrow> string" where
  "func_name View_home_page = ''home_page''"
| "func_name View_send_static_file = ''<lambda>''"

text \<open>
  The application object, as far as routing goes: the URL map and the view functions
  by endpoint. Flask's private bookkeeping is not part of the record; in particular
  the flag \<^verbatim>\<open>_got_first_request\<close>, which the framework sets when it handles the first
  request and which makes later route registration raise, is left out, since the
  module registers its routes at import and nothing registers one afterwards.
\<close>

record flask =
  import_name :: string
  url_map :: "url_rule list"
  view_functions :: "string \<rightharpoonup> view_function"

text \<open>
  The state program code can reach: the module global \<open>app\<close> and the lines the process
  has written to its console or log.
\<close>

record world =
  app :: flask
  console :: "string list"

text \<open>
  The two framework parameters: \<^verbatim>\<open>Flask.send_static_file\<close>, which reads the file
  system and the request's conditional headers and returns a response or raises, and
  the body text Werkzeug renders for an HTTP exception.
\<close>

record framework_env =
  send_static_file :: "request \<Rightarrow> string \<Rightarrow> exception + response"
  get_body :: "http_exception \<Rightarrow> string"

subsection \<open>The view function of \<^verbatim>\<open>app.py\<close>\<close>

text \<open>
  \<^verbatim>\<open>def home_page(): return "Hello from my Flask app!"\<close>
  takes no argument. As any Python function it could raise or touch program state, so
  its model has the type of a computation over \<open>world\<close> that may fail.
\<close>

definition home_page :: "world \<Rightarrow> (exception + rv) \<times> world" where
  "home_page w = (Inr (Str ''Hello from my Flask app!''), w)"

subsection \<open>Registering routes\<close>

text \<open>Python's \<^verbatim>\<open>str.upper\<close> on the ASCII letters, which is all a method name holds.\<close>

definition upper_char :: "char \<Rightarrow> char" where
  "upper_char c =
     (case map_of (zip ''abcdefghijklmnopqrstuvwxyz'' ''ABCDEFGHIJKLMNOPQRSTUVWXYZ'') c of
        None \<Rightarrow> c
      | Some u \<Rightarrow> u)"

definition upper :: "string \<Rightarrow> string" where
  "upper s = map upper_char s"

text \<open>
  \<^verbatim>\<open>werkzeug.routing.Rule.__init__\<close>: a rule text must start with a slash; the
  methods are upper-cased; a rule that allows GET also allows HEAD. The last argument
  is the attribute \<^verbatim>\<open>provide_automatic_options\<close> that Flask sets on the new rule.
\<close>

definition Rule ::
  "rule_pattern \<Rightarrow> string set \<Rightarrow> string \<Rightarrow> bool \<Rightarrow> exception + url_rule" where
  "Rule pat ms ep auto =
     (if take 1 (rule_text pat) \<noteq> ''/''
      then Inl (ValueError ''urls must start with a leading slash'')
      else
        (let ms' = upper ` ms
         in Inr \<lparr>pattern = pat,
                 methods = (if ''HEAD'' \<notin> ms' \<and> ''GET'' \<in> ms' then insert ''HEAD'' ms' else ms'),
                 endpoint = ep,
                 provide_automatic_options = auto\<rparr>))"

text \<open>
  \<^verbatim>\<open>Flask.add_url_rule(rule, endpoint=None, view_func, methods=None)\<close>: the endpoint
  defaults to the view function's name, the methods to \<^verbatim>\<open>("GET",)\<close>, and they are
  upper-cased; OPTIONS is added and answered by the framework unless the caller listed
  it. The rule is built (which may raise) and appended to the map; then registering a
  second, different function under an endpoint raises \<^verbatim>\<open>AssertionError\<close>, with the
  rule already in the map. The result is the exception raised, if any, and the
  application object as the call leaves it.
\<close>

definition add_url_rule ::
  "flask \<Rightarrow> rule_pattern \<Rightarrow> string option \<Rightarrow> view_function \<Rightarrow> string set option
     \<Rightarrow> exception option \<times> flask" where
  "add_url_rule a pat ep f ms =
     (let endpoint = (case ep of None \<Rightarrow> func_name f | Some e \<Rightarrow> e);
          methods0 = (case ms of None \<Rightarrow> {''GET''} | Some m \<Rightarrow> upper ` m);
          auto = (''OPTIONS'' \<notin> methods0);
          methods1 = (if auto then insert ''OPTIONS'' methods0 else methods0)
      in case Rule pat methods1 endpoint auto of
           Inl e \<Rightarrow> (Some e, a)
         | Inr r \<Rightarrow>
             (let a' = a\<lparr>url_map := url_map a @ [r]\<rparr>
              in case view_functions a endpoint of
                   None \<Rightarrow> (None, a'\<lparr>view_functions := (view_functions a)(endpoint \<mapsto> f)\<rparr>)
                 | Some old \<Rightarrow>
                     if old \<noteq> f then (Some (AssertionError endpoint), a')
                     else (None, a'\<lparr>view_functions := (view_functions a)(endpoint \<mapsto> f)\<rparr>)))"

text \<open>\<^verbatim>\<open>@app.route(rule)\<close> applied to \<open>f\<close>: \<^verbatim>\<open>add_url_rule(rule, None, f)\<close>.\<close>

definition route ::
  "flask \<Rightarrow> rule_pattern \<Rightarrow> view_function \<Rightarrow> exception option \<times> flask" where
  "route a pat f = add_url_rule a pat None f None"

text \<open>
  \<^verbatim>\<open>Flask(import_name)\<close> with its default arguments (\<^verbatim>\<open>static_folder="static"\<close>,
  \<^verbatim>\<open>static_url_path=None\<close>): the constructor itself registers the rule
  \<^verbatim>\<open>/static/<path:filename>\<close> under the endpoint \<^verbatim>\<open>static\<close>.
\<close>

definition Flask :: "string \<Rightarrow> exception option \<times> flask" where
  "Flask name =
     add_url_rule \<lparr>import_name = name, url_map = [], view_functions = Map.empty\<rparr>
       (Path_arg ''/static/'' ''filename'') (Some ''static'') View_send_static_file None"

subsection \<open>The module body\<close>

text \<open>
  Importing \<^verbatim>\<open>app.py\<close> under the module name \<open>name\<close> (\<^verbatim>\<open>__name__\<close>): construct the
  application, decorate \<open>home_page\<close>. Nothing is printed and no other statement runs;
  an exception in either statement ends the import.
\<close>

definition app_py :: "string \<Rightarrow> exception + world" where
  "app_py name =
     (case Flask name of
        (Some e, a) \<Rightarrow> Inl e
      | (None, a) \<Rightarrow>
          (case route a (Literal ''/'') View_home_page of
             (Some e, a') \<Rightarrow> Inl e
           | (None, a') \<Rightarrow> Inr \<lparr>app = a', console = []\<rparr>))"

subsection \<open>Matching a path against the URL map\<close>

text \<open>
  \<^verbatim>\<open>Request.path\<close> is the raw path with its leading slashes replaced by one. The
  matcher is given the same, except that an empty raw path stays empty
  (\<^verbatim>\<open>MapAdapter.match\<close>).
\<close>

definition request_path :: "string \<Rightarrow> string" where
  "request_path p = CHR ''/'' # dropWhile (\<lambda>c. c = CHR ''/'') p"

definition path_part :: "string \<Rightarrow> string" where
  "path_part p = (if p = [] then [] else request_path p)"

text \<open>
  A path matches \<open>Literal s\<close> when it is \<open>s\<close>, and \<open>Path_arg s n\<close> when it is \<open>s\<close>
  followed by a non-empty rest that does not begin with a slash (the path converter's
  pattern \<^verbatim>\<open>[^/].*?\<close>); the rest is bound to \<open>n\<close>.
\<close>

fun match_pattern :: "rule_pattern \<Rightarrow> string \<Rightarrow> (string \<times> string) list option" where
  "match_pattern (Literal s) p = (if p = s then Some [] else None)"
| "match_pattern (Path_arg s n) p =
     (let rest = drop (length s) p
      in if take (length s) p = s \<and> rest \<noteq> [] \<and> hd rest \<noteq> CHR ''/''
         then Some [(n, rest)] else None)"

text \<open>
  A rule whose text ends in a slash is also reached by the path that lacks just this
  final slash: the matcher then asks for the slash (the rules are strict about slashes,
  the default).
\<close>

fun slash_required :: "rule_pattern \<Rightarrow> string \<Rightarrow> bool" where
  "slash_required (Literal s) p = (s = p @ ''/'')"
| "slash_required (Path_arg s n) p = False"

text \<open>
  The substitution \<^verbatim>\<open>re.sub("/{2,}?", "/", path)\<close>: from left to right, each pair of
  slashes becomes one slash.
\<close>

fun merge_slashes :: "string \<Rightarrow> string" where
  "merge_slashes (c # d # cs) =
     (if c = CHR ''/'' \<and> d = CHR ''/'' then CHR ''/'' # merge_slashes cs
      else c # merge_slashes (d # cs))"
| "merge_slashes cs = cs"

text \<open>
  One pass of \<^verbatim>\<open>StateMachineMatcher.match\<close> over the rules: a rule that matches the
  path and allows the method is the result; a rule that matches the path only adds its
  methods to \<open>have_match_for\<close>; a rule that would match with one more slash, and allows
  the method, asks for the slash. (With several overlapping rules Werkzeug orders them
  by weight; the two rules of this application never match the same path.)
\<close>

datatype 'a attempt = Matched 'a | Slash_required | No_match

fun match_attempt ::
  "url_rule list \<Rightarrow> string \<Rightarrow> string \<Rightarrow> string set
     \<Rightarrow> (url_rule \<times> (string \<times> string) list) attempt \<times> string set" where
  "match_attempt [] p m have_match_for = (No_match, have_match_for)"
| "match_attempt (r # rs) p m have_match_for =
     (case match_pattern (pattern r) p of
        Some args \<Rightarrow>
          if m \<in> methods r then (Matched (r, args), have_match_for)
          else match_attempt rs p m (have_match_for \<union> methods r)
      | None \<Rightarrow>
          if slash_required (pattern r) p \<and> m \<in> methods r
          then (Slash_required, have_match_for)
          else match_attempt rs p m have_match_for)"

text \<open>
  \<^verbatim>\<open>MapAdapter.match\<close> on the path part: a match is returned; a missing final slash
  is answered by a redirect to the path with the slash. Otherwise the pass is repeated
  on the path with its slashes merged: if that matches, the answer is a redirect to
  the merged path; if not, the request is rejected with the methods collected in both
  passes when there are any, and is not found when there are none.
\<close>

definition match_rules ::
  "url_rule list \<Rightarrow> string \<Rightarrow> string
     \<Rightarrow> http_exception + (url_rule \<times> (string \<times> string) list)" where
  "match_rules rules p m =
     (case match_attempt rules p m {} of
        (Matched x, have_match_for) \<Rightarrow> Inr x
      | (Slash_required, have_match_for) \<Rightarrow> Inl (RequestRedirect (p @ ''/''))
      | (No_match, have_match_for) \<Rightarrow>
          (case match_attempt rules (merge_slashes p) m have_match_for of
             (Matched x, have_match_for') \<Rightarrow> Inl (RequestRedirect (merge_slashes p))
           | (Slash_required, have_match_for') \<Rightarrow>
               Inl (RequestRedirect (merge_slashes p @ ''/''))
           | (No_match, have_match_for') \<Rightarrow>
               if have_match_for' = {} then Inl NotFound
               else Inl (MethodNotAllowed have_match_for')))"

text \<open>
  \<^verbatim>\<open>MapAdapter.allowed_methods\<close>: match with the method \<^verbatim>\<open>--\<close>, which no rule
  allows, and read the allowed methods off the rejection.
\<close>

definition allowed_methods :: "flask \<Rightarrow> string \<Rightarrow> string set" where
  "allowed_methods a p =
     (case match_rules (url_map a) p ''--'' of
        Inl (MethodNotAllowed valid_methods) \<Rightarrow> valid_methods
      | _ \<Rightarrow> {})"

subsection \<open>Dispatching a request\<close>

text \<open>\<^verbatim>\<open>Flask.make_default_options_response\<close>: an empty response listing them.\<close>

definition make_default_options_response :: "flask \<Rightarrow> request \<Rightarrow> response" where
  "make_default_options_response a req =
     \<lparr>status_code = 200, mimetype = ''text/html'',
      allow = allowed_methods a (path_part (path req)), data = []\<rparr>"

text \<open>
  Calling the stored function with the matched arguments as keywords:
  \<^verbatim>\<open>home_page(**view_args)\<close> accepts none.
\<close>

fun call_view ::
  "framework_env \<Rightarrow> request \<Rightarrow> view_function \<Rightarrow> (string \<times> string) list \<Rightarrow> world
     \<Rightarrow> (exception + rv) \<times> world" where
  "call_view env req View_home_page args w =
     (if args = [] then home_page w else (Inl (TypeError ''home_page''), w))"
| "call_view env req View_send_static_file args w =
     (case args of
        [(n, filename)] \<Rightarrow>
          if n = ''filename'' then
            (case send_static_file env req filename of
               Inl e \<Rightarrow> (Inl e, w)
             | Inr r \<Rightarrow> (Inr (Response_rv r), w))
          else (Inl (TypeError ''send_static_file''), w)
      | _ \<Rightarrow> (Inl (TypeError ''send_static_file''), w))"

text \<open>
  \<^verbatim>\<open>Flask.dispatch_request\<close>: raise the routing exception if there is one; answer
  OPTIONS itself when the rule provides automatic options; otherwise call the view
  function registered under the rule's endpoint.
\<close>

definition dispatch_request ::
  "framework_env \<Rightarrow> request \<Rightarrow> world \<Rightarrow> (exception + rv) \<times> world" where
  "dispatch_request env req w =
     (case match_rules (url_map (app w)) (path_part (path req)) (request_method req) of
        Inl e \<Rightarrow> (Inl (HTTPException e), w)
      | Inr (r, args) \<Rightarrow>
          if provide_automatic_options r \<and> request_method req = ''OPTIONS''
          then (Inr (Response_rv (make_default_options_response (app w) req)), w)
          else (case view_functions (app w) (endpoint r) of
                  None \<Rightarrow> (Inl (KeyError (endpoint r)), w)
                | Some f \<Rightarrow> call_view env req f args w))"

text \<open>
  \<^verbatim>\<open>Flask.make_response\<close> on a view's return value: a string becomes the body of a
  response with status 200 and the response class's default mimetype, text/html.
\<close>

fun make_response :: "rv \<Rightarrow> response" where
  "make_response (Str s) =
     \<lparr>status_code = 200, mimetype = ''text/html'', allow = {}, data = s\<rparr>"
| "make_response (Response_rv r) = r"

text \<open>
  An HTTP exception, with no error handler registered, is its own response. (The
  target of a redirect is kept in the exception; the response record has no field for
  the \<^verbatim>\<open>Location\<close> header.)
\<close>

definition get_response :: "framework_env \<Rightarrow> http_exception \<Rightarrow> response" where
  "get_response env e =
     \<lparr>status_code = code e, mimetype = ''text/html'',
      allow = (case e of MethodNotAllowed valid_methods \<Rightarrow> valid_methods | _ \<Rightarrow> {}),
      data = get_body env e\<rparr>"

text \<open>
  \<^verbatim>\<open>Flask.full_dispatch_request\<close>: HTTP exceptions become responses, any other
  exception propagates.
\<close>

definition full_dispatch_request ::
  "framework_env \<Rightarrow> request \<Rightarrow> world \<Rightarrow> (exception + response) \<times> world" where
  "full_dispatch_request env req w =
     (case dispatch_request env req w of
        (Inr v, w') \<Rightarrow> (Inr (make_response v), w')
      | (Inl (HTTPException e), w') \<Rightarrow> (Inr (get_response env e), w')
      | (Inl e, w') \<Rightarrow> (Inl e, w'))"

text \<open>
  \<^verbatim>\<open>Flask.wsgi_app\<close>: an exception that is still unhandled is logged
  (\<^verbatim>\<open>Exception on <path> [<method>]\<close>) and answered with status 500; the body of the
  response to a HEAD request is not sent.
\<close>

definition wsgi_app :: "framework_env \<Rightarrow> request \<Rightarrow> world \<Rightarrow> response \<times> world" where
  "wsgi_app env req w =
     (case full_dispatch_request env req w of
        (Inr r, w') \<Rightarrow> (if request_method req = ''HEAD'' then r\<lparr>data := []\<rparr> else r, w')
      | (Inl e, w') \<Rightarrow>
          (let r = get_response env InternalServerError
           in (if request_method req = ''HEAD'' then r\<lparr>data := []\<rparr> else r,
               w'\<lparr>console := console w' @
                   [''Exception on '' @ request_path (path req) @
                    '' ['' @ request_method req @ '']'']\<rparr>)))"

text \<open>Serving a sequence of requests, one after the other.\<close>

fun serve :: "framework_env \<Rightarrow> request list \<Rightarrow> world \<Rightarrow> response list \<times> world" where
  "serve env [] w = ([], w)"
| "serve env (req # reqs) w =
     (case wsgi_app env req w of
        (r, w') \<Rightarrow> (case serve env reqs w' of (rs, w'') \<Rightarrow> (r # rs, w'')))"

section \<open>What importing the module builds\<close>

lemma upper_methods:
  "upper ''GET'' = ''GET''" "upper ''HEAD'' = ''HEAD''" "upper ''OPTIONS'' = ''OPTIONS''"
  by (simp_all add: upper_def upper_char_def)

lemma Flask_eq:
  "Flask name =
     (None,
      \<lparr>import_name = name,
          url_map = [\<lparr>pattern = Path_arg ''/static/'' ''filename'',
                      methods = {''HEAD'', ''OPTIONS'', ''GET''},
                      endpoint = ''static'', provide_automatic_options = True\<rparr>],
          view_functions = [''static'' \<mapsto> View_send_static_file]\<rparr>)"
  by (simp add: Flask_def add_url_rule_def Rule_def rule_text_def upper_methods Let_def)

lemma app_py_eq:
  "app_py name =
     Inr \<lparr>app = \<lparr>import_name = name,
                 url_map = [\<lparr>pattern = Path_arg ''/static/'' ''filename'',
                             methods = {''HEAD'', ''OPTIONS'', ''GET''},
                             endpoint = ''static'', provide_automatic_options = True\<rparr>,
                            \<lparr>pattern = Literal ''/'',
                             methods = {''HEAD'', ''OPTIONS'', ''GET''},
                             endpoint = ''home_page'', provide_automatic_options = True\<rparr>],
                 view_functions = [''static'' \<mapsto> View_send_static_file,
                                   ''home_page'' \<mapsto> View_home_page]\<rparr>,
          console = []\<rparr>"
  by (simp add: app_py_def Flask_eq route_def add_url_rule_def Rule_def rule_text_def
        upper_methods Let_def)

lemma app_py_app:
  assumes "app_py name = Inr w0" and "app w = app w0"
  shows "url_map (app w) =
           [\<lparr>pattern = Path_arg ''/static/'' ''filename'',
             methods = {''HEAD'', ''OPTIONS'', ''GET''},
             endpoint = ''static'', provide_automatic_options = True\<rparr>,
            \<lparr>pattern = Literal ''/'',
             methods = {''HEAD'', ''OPTIONS'', ''GET''},
             endpoint = ''home_page'', provide_automatic_options = True\<rparr>]"
    and "view_functions (app w) =
           [''static'' \<mapsto> View_send_static_file, ''home_page'' \<mapsto> View_home_page]"
  using assms by (auto simp: app_py_eq)

section \<open>Request handling never changes the application object\<close>

lemma call_view_world: "snd (call_view env req f args w) = w"
  by (cases f) (auto simp: home_page_def split: list.splits sum.splits)

lemma dispatch_request_world: "snd (dispatch_request env req w) = w"
  by (auto simp: dispatch_request_def call_view_world split: sum.splits option.splits)

lemma full_dispatch_request_world: "snd (full_dispatch_request env req w) = w"
proof -
  obtain x where d: "dispatch_request env req w = (x, w)"
    using dispatch_request_world[of env req w] by (cases "dispatch_request env req w") simp
  show ?thesis
    by (simp add: full_dispatch_request_def d split: sum.splits exception.splits)
qed

lemma wsgi_app_app: "app (snd (wsgi_app env req w)) = app w"
proof -
  obtain x where d: "full_dispatch_request env req w = (x, w)"
    using full_dispatch_request_world[of env req w]
    by (cases "full_dispatch_request env req w") simp
  show ?thesis
    by (simp add: wsgi_app_def d Let_def split: sum.splits)
qed

lemma serve_app: "app (snd (serve env reqs w)) = app w"
proof (induction reqs arbitrary: w)
  case Nil
  show ?case by simp
next
  case (Cons req reqs)
  obtain r w' where step: "wsgi_app env req w = (r, w')"
    by (cases "wsgi_app env req w")
  with wsgi_app_app[of env req w] have "app w' = app w" by simp
  with Cons[of w'] have "app (snd (serve env reqs w')) = app w" by simp
  with step show ?case by (cases "serve env reqs w'") simp
qed

section \<open>Routing on the application's URL map\<close>

lemma path_arg_match_iff:
  "match_pattern (Path_arg s n) p = Some args \<longleftrightarrow>
     (\<exists>f. p = s @ f \<and> f \<noteq> [] \<and> hd f \<noteq> CHR ''/'' \<and> args = [(n, f)])"
proof
  assume "match_pattern (Path_arg s n) p = Some args"
  then have t: "take (length s) p = s" and d: "drop (length s) p \<noteq> []"
    and h: "hd (drop (length s) p) \<noteq> CHR ''/''" and a: "args = [(n, drop (length s) p)]"
    by (auto simp: Let_def split: if_splits)
  have "p = take (length s) p @ drop (length s) p" by simp
  with t have "p = s @ drop (length s) p" by simp
  with d h a show "\<exists>f. p = s @ f \<and> f \<noteq> [] \<and> hd f \<noteq> CHR ''/'' \<and> args = [(n, f)]"
    by blast
next
  assume "\<exists>f. p = s @ f \<and> f \<noteq> [] \<and> hd f \<noteq> CHR ''/'' \<and> args = [(n, f)]"
  then show "match_pattern (Path_arg s n) p = Some args"
    by (auto simp: Let_def)
qed

lemma static_match_iff:
  "match_pattern (Path_arg ''/static/'' ''filename'') p = Some args \<longleftrightarrow>
     (\<exists>f. p = ''/static/'' @ f \<and> f \<noteq> [] \<and> hd f \<noteq> CHR ''/'' \<and> args = [(''filename'', f)])"
  by (rule path_arg_match_iff)

lemma static_match_None_iff:
  "match_pattern (Path_arg ''/static/'' ''filename'') p = None \<longleftrightarrow>
     \<not> (\<exists>f. p = ''/static/'' @ f \<and> f \<noteq> [] \<and> hd f \<noteq> CHR ''/'')"
proof (cases "match_pattern (Path_arg ''/static/'' ''filename'') p")
  case None
  have "\<not> (\<exists>f. p = ''/static/'' @ f \<and> f \<noteq> [] \<and> hd f \<noteq> CHR ''/'')"
  proof
    assume "\<exists>f. p = ''/static/'' @ f \<and> f \<noteq> [] \<and> hd f \<noteq> CHR ''/''"
    then obtain f where "p = ''/static/'' @ f \<and> f \<noteq> [] \<and> hd f \<noteq> CHR ''/'' \<and>
        [(''filename'', f)] = [(''filename'', f)]" by blast
    then have "match_pattern (Path_arg ''/static/'' ''filename'') p = Some [(''filename'', f)]"
      using static_match_iff[of p "[(''filename'', f)]"] by blast
    with None show False by simp
  qed
  with None show ?thesis by simp
next
  case (Some args)
  with static_match_iff[of p args] show ?thesis by auto
qed

lemma attempt_root:
  assumes "app_py name = Inr w0" and "app w = app w0"
  shows "match_attempt (url_map (app w)) ''/'' m h =
           (if m \<in> {''HEAD'', ''OPTIONS'', ''GET''}
            then (Matched (\<lparr>pattern = Literal ''/'', methods = {''HEAD'', ''OPTIONS'', ''GET''},
                            endpoint = ''home_page'', provide_automatic_options = True\<rparr>, []), h)
            else (No_match, h \<union> {''HEAD'', ''OPTIONS'', ''GET''}))"
  by (simp add: app_py_app(1)[OF assms])

lemma attempt_static:
  assumes "app_py name = Inr w0" and "app w = app w0"
    and "match_pattern (Path_arg ''/static/'' ''filename'') p = Some args"
  shows "match_attempt (url_map (app w)) p m h =
           (if m \<in> {''HEAD'', ''OPTIONS'', ''GET''}
            then (Matched (\<lparr>pattern = Path_arg ''/static/'' ''filename'',
                            methods = {''HEAD'', ''OPTIONS'', ''GET''},
                            endpoint = ''static'', provide_automatic_options = True\<rparr>, args), h)
            else (No_match, h \<union> {''HEAD'', ''OPTIONS'', ''GET''}))"
proof -
  from assms(3) have "p \<noteq> ''/''" and "p \<noteq> []"
    by (auto simp: Let_def split: if_splits)
  then show ?thesis
    using assms(3)
    by (simp add: app_py_app(1)[OF assms(1,2)] del: match_pattern.simps(2))
qed

lemma attempt_empty:
  assumes "app_py name = Inr w0" and "app w = app w0"
  shows "match_attempt (url_map (app w)) [] m h =
           (if m \<in> {''HEAD'', ''OPTIONS'', ''GET''} then (Slash_required, h) else (No_match, h))"
  by (simp add: app_py_app(1)[OF assms])

lemma attempt_other:
  assumes "app_py name = Inr w0" and "app w = app w0"
    and "p \<noteq> ''/''" and "p \<noteq> []"
    and "match_pattern (Path_arg ''/static/'' ''filename'') p = None"
  shows "match_attempt (url_map (app w)) p m h = (No_match, h)"
  using assms(3,4,5)
  by (simp add: app_py_app(1)[OF assms(1,2)] del: match_pattern.simps(2))

lemma attempt_not_allowed:
  assumes "app_py name = Inr w0" and "app w = app w0"
    and "m \<notin> {''HEAD'', ''OPTIONS'', ''GET''}"
  shows "match_attempt (url_map (app w)) p m h = (No_match, h) \<or>
         match_attempt (url_map (app w)) p m h = (No_match, h \<union> {''HEAD'', ''OPTIONS'', ''GET''})"
proof (cases "match_pattern (Path_arg ''/static/'' ''filename'') p")
  case (Some args)
  from attempt_static[OF assms(1,2) Some, of m h] assms(3) show ?thesis by simp
next
  case None
  show ?thesis
  proof (cases "p = ''/''")
    case True
    with attempt_root[OF assms(1,2), of m h] assms(3) show ?thesis by simp
  next
    case False
    show ?thesis
    proof (cases "p = []")
      case True
      with attempt_empty[OF assms(1,2), of m h] assms(3) show ?thesis by simp
    next
      case nonempty: False
      from attempt_other[OF assms(1,2) False nonempty None, of m h] show ?thesis by simp
    qed
  qed
qed

lemma match_rules_Inl_code:
  assumes "match_rules rules p m = Inl e"
  shows "code e = 308 \<or> code e = 404 \<or> code e = 405"
  using assms
  by (auto simp: match_rules_def split: prod.splits attempt.splits if_splits)

lemma match_rules_unmatched:
  assumes "\<forall>x. fst (match_attempt rules p m {}) \<noteq> Matched x"
  shows "\<exists>e. match_rules rules p m = Inl e"
  using assms
  by (auto simp: match_rules_def split: prod.splits attempt.splits)

lemma match_root:
  assumes "app_py name = Inr w0" and "app w = app w0"
  shows "match_rules (url_map (app w)) ''/'' m =
           (if m \<in> {''HEAD'', ''OPTIONS'', ''GET''}
            then Inr (\<lparr>pattern = Literal ''/'', methods = {''HEAD'', ''OPTIONS'', ''GET''},
                       endpoint = ''home_page'', provide_automatic_options = True\<rparr>, [])
            else Inl (MethodNotAllowed {''HEAD'', ''OPTIONS'', ''GET''}))"
  by (auto simp: match_rules_def attempt_root[OF assms])

lemma match_static:
  assumes "app_py name = Inr w0" and "app w = app w0"
    and "match_pattern (Path_arg ''/static/'' ''filename'') p = Some args"
    and "m \<in> {''HEAD'', ''OPTIONS'', ''GET''}"
  shows "match_rules (url_map (app w)) p m =
           Inr (\<lparr>pattern = Path_arg ''/static/'' ''filename'',
                 methods = {''HEAD'', ''OPTIONS'', ''GET''},
                 endpoint = ''static'', provide_automatic_options = True\<rparr>, args)"
  using assms(4) by (simp add: match_rules_def attempt_static[OF assms(1,2,3)])

lemma match_static_not_allowed:
  assumes "app_py name = Inr w0" and "app w = app w0"
    and "match_pattern (Path_arg ''/static/'' ''filename'') p = Some args"
    and "m \<notin> {''HEAD'', ''OPTIONS'', ''GET''}"
  shows "match_rules (url_map (app w)) p m =
           Inl (MethodNotAllowed {''HEAD'', ''OPTIONS'', ''GET''})"
proof -
  have first: "match_attempt (url_map (app w)) p m {} =
      (No_match, {''HEAD'', ''OPTIONS'', ''GET''})"
    using attempt_static[OF assms(1,2,3), of m "{}"] assms(4) by simp
  from attempt_not_allowed[OF assms(1,2,4), of "merge_slashes p" "{''HEAD'', ''OPTIONS'', ''GET''}"]
  have second: "match_attempt (url_map (app w)) (merge_slashes p) m
      {''HEAD'', ''OPTIONS'', ''GET''} = (No_match, {''HEAD'', ''OPTIONS'', ''GET''})"
    by auto
  show ?thesis
    by (simp add: match_rules_def first second)
qed

lemma match_not_allowed:
  assumes "app_py name = Inr w0" and "app w = app w0"
    and "m \<notin> {''HEAD'', ''OPTIONS'', ''GET''}"
  shows "\<exists>e. match_rules (url_map (app w)) p m = Inl e"
proof (rule match_rules_unmatched)
  from attempt_not_allowed[OF assms, of p "{}"]
  show "\<forall>x. fst (match_attempt (url_map (app w)) p m {}) \<noteq> Matched x" by auto
qed

lemma match_no_rule:
  assumes "app_py name = Inr w0" and "app w = app w0"
    and "p \<noteq> ''/''"
    and "match_pattern (Path_arg ''/static/'' ''filename'') p = None"
  shows "\<exists>e. match_rules (url_map (app w)) p m = Inl e"
proof (rule match_rules_unmatched)
  show "\<forall>x. fst (match_attempt (url_map (app w)) p m {}) \<noteq> Matched x"
  proof (cases "p = []")
    case True
    with attempt_empty[OF assms(1,2), of m "{}"] show ?thesis by simp
  next
    case False
    with attempt_other[OF assms(1,2,3) False assms(4), of m "{}"] show ?thesis by simp
  qed
qed

section \<open>Responses on the application's URL map\<close>

lemma wsgi_routing_exception:
  assumes "match_rules (url_map (app w)) (path_part (path req)) (request_method req) = Inl e"
  shows "status_code (fst (wsgi_app env req w)) = code e"
    and "allow (fst (wsgi_app env req w)) =
           (case e of MethodNotAllowed valid_methods \<Rightarrow> valid_methods | _ \<Rightarrow> {})"
    and "snd (wsgi_app env req w) = w"
  by (simp_all add: wsgi_app_def full_dispatch_request_def dispatch_request_def assms
        get_response_def)

lemma path_part_root: "path_part ''/'' = ''/''"
  by (simp add: path_part_def request_path_def)

lemma dispatch_root_view:
  assumes "app_py name = Inr w0" and "app w = app w0" and "path req = ''/''"
    and "request_method req = ''GET'' \<or> request_method req = ''HEAD''"
  shows "dispatch_request env req w = (Inr (Str ''Hello from my Flask app!''), w)"
  using assms(4)
  by (auto simp: dispatch_request_def match_root[OF assms(1,2)] assms(3) path_part_root
        app_py_app(2)[OF assms(1,2)] home_page_def)

lemma wsgi_root_get:
  assumes "app_py name = Inr w0" and "app w = app w0" and "path req = ''/''"
    and "request_method req = ''GET''"
  shows "wsgi_app env req w =
           (\<lparr>status_code = 200, mimetype = ''text/html'', allow = {},
             data = ''Hello from my Flask app!''\<rparr>, w)"
  by (simp add: wsgi_app_def full_dispatch_request_def
        dispatch_root_view[OF assms(1,2,3)] assms(4))

lemma wsgi_root_head:
  assumes "app_py name = Inr w0" and "app w = app w0" and "path req = ''/''"
    and "request_method req = ''HEAD''"
  shows "wsgi_app env req w =
           (\<lparr>status_code = 200, mimetype = ''text/html'', allow = {}, data = []\<rparr>, w)"
  by (simp add: wsgi_app_def full_dispatch_request_def
        dispatch_root_view[OF assms(1,2,3)] assms(4))

lemma wsgi_root_options:
  assumes "app_py name = Inr w0" and "app w = app w0" and "path req = ''/''"
    and "request_method req = ''OPTIONS''"
  shows "wsgi_app env req w =
           (\<lparr>status_code = 200, mimetype = ''text/html'',
             allow = {''HEAD'', ''OPTIONS'', ''GET''}, data = []\<rparr>, w)"
  by (simp add: wsgi_app_def full_dispatch_request_def dispatch_request_def
        match_root[OF assms(1,2)] assms(3,4) path_part_root
        make_default_options_response_def allowed_methods_def)

lemma wsgi_root_other:
  assumes "app_py name = Inr w0" and "app w = app w0" and "path req = ''/''"
    and "request_method req \<notin> {''GET'', ''HEAD'', ''OPTIONS''}"
  shows "wsgi_app env req w =
           (\<lparr>status_code = 405, mimetype = ''text/html'',
             allow = {''HEAD'', ''OPTIONS'', ''GET''},
             data = get_body env (MethodNotAllowed {''HEAD'', ''OPTIONS'', ''GET''})\<rparr>, w)"
  using assms(4)
  by (simp add: wsgi_app_def full_dispatch_request_def dispatch_request_def
        match_root[OF assms(1,2)] assms(3) path_part_root get_response_def)

section \<open>The properties claimed of the application\<close>

text \<open>
  C1. After the module is imported, every request with method GET and path \<^verbatim>\<open>/\<close> is
  answered with status 200, a text/plain or text/html content type (it is text/html)
  and the body \<^verbatim>\<open>Hello from my Flask app!\<close>: whatever the rest of the request,
  whatever the framework parameters, and whatever requests have been served before,
  including ones that failed and were logged.
\<close>

theorem root_get_response:
  assumes "app_py name = Inr w" and "request_method req = ''GET''" and "path req = ''/''"
  shows "status_code (fst (wsgi_app env req (snd (serve env' earlier w)))) = 200 \<and>
         (mimetype (fst (wsgi_app env req (snd (serve env' earlier w)))) = ''text/plain'' \<or>
          mimetype (fst (wsgi_app env req (snd (serve env' earlier w)))) = ''text/html'') \<and>
         data (fst (wsgi_app env req (snd (serve env' earlier w)))) =
           ''Hello from my Flask app!''"
  by (simp add: wsgi_root_get[OF assms(1) serve_app assms(3,2)])

text \<open>
  The theorem at a concrete request, on the world that importing as \<^verbatim>\<open>app\<close> builds,
  after a static-file request that raised and was logged and a rejected POST.
\<close>

theorem root_get_response_witness:
  "map_sum id
     (\<lambda>w. (fst (wsgi_app
              \<lparr>send_static_file = (\<lambda>req f. Inl (HTTPException NotFound)),
      get_body = (\<lambda>e. ''error'')\<rparr>
              \<lparr>request_method = ''GET'', path = ''/'',
      query_string = ''lang=en'', headers = [(''Accept'', ''*/*'')], body = []\<rparr>
              (snd (serve
                \<lparr>send_static_file = (\<lambda>req f. Inl (OSError ''denied'')),
      get_body = (\<lambda>e. ''error'')\<rparr>
                [\<lparr>request_method = ''GET'', path = ''/static/a.css'',
      query_string = [], headers = [], body = []\<rparr>,
                 \<lparr>request_method = ''POST'', path = ''/'',
      query_string = [], headers = [], body = ''y''\<rparr>] w))),
            console (snd (serve
                \<lparr>send_static_file = (\<lambda>req f. Inl (OSError ''denied'')),
      get_body = (\<lambda>e. ''error'')\<rparr>
                [\<lparr>request_method = ''GET'', path = ''/static/a.css'',
      query_string = [], headers = [], body = []\<rparr>,
                 \<lparr>request_method = ''POST'', path = ''/'',
      query_string = [], headers = [], body = ''y''\<rparr>] w))))
     (app_py ''app'') =
   Inr (\<lparr>status_code = 200, mimetype = ''text/html'', allow = {},
         data = ''Hello from my Flask app!''\<rparr>,
        [''Exception on /static/a.css [GET]''])"
proof -
  let ?req = "\<lparr>request_method = ''GET'', path = ''/'',
      query_string = ''lang=en'', headers = [(''Accept'', ''*/*'')], body = []\<rparr>"
  let ?env = "\<lparr>send_static_file = (\<lambda>req f. Inl (HTTPException NotFound)),
      get_body = (\<lambda>e. ''error'')\<rparr>"
  let ?env' = "\<lparr>send_static_file = (\<lambda>req f. Inl (OSError ''denied'')),
      get_body = (\<lambda>e. ''error'')\<rparr>"
  let ?earlier = "[\<lparr>request_method = ''GET'', path = ''/static/a.css'',
      query_string = [], headers = [], body = []\<rparr>,
                 \<lparr>request_method = ''POST'', path = ''/'',
      query_string = [], headers = [], body = ''y''\<rparr>]"
  have m: "request_method ?req = ''GET''" and p: "path ?req = ''/''" by simp_all
  from root_get_response[OF app_py_eq[of "''app''"] m p, of ?env ?env' ?earlier]
  show ?thesis
    by (simp add: app_py_eq wsgi_app_def full_dispatch_request_def dispatch_request_def
          match_rules_def path_part_def request_path_def get_response_def home_page_def)
qed

text \<open>
  C4. The answer to GET \<^verbatim>\<open>/\<close> does not drift: in any two runs of the program (module
  names \<open>name1\<close>, \<open>name2\<close>), after any requests served earlier in each run, and for any
  two GET requests to \<^verbatim>\<open>/\<close>, both response bodies are the literal greeting, hence
  equal.
\<close>

theorem root_get_no_drift:
  assumes "app_py name1 = Inr w1" and "app_py name2 = Inr w2"
    and "request_method r1 = ''GET''" and "path r1 = ''/''"
    and "request_method r2 = ''GET''" and "path r2 = ''/''"
  shows "data (fst (wsgi_app env1 r1 (snd (serve env1 earlier1 w1)))) =
           ''Hello from my Flask app!'' \<and>
         data (fst (wsgi_app env2 r2 (snd (serve env2 earlier2 w2)))) =
           data (fst (wsgi_app env1 r1 (snd (serve env1 earlier1 w1))))"
  by (simp add: wsgi_root_get[OF assms(1) serve_app assms(4,3)]
        wsgi_root_get[OF assms(2) serve_app assms(6,5)])

text \<open>
  Two different GET requests to \<^verbatim>\<open>/\<close>, the second after a POST and a request for an
  unknown path have been served.
\<close>

theorem root_get_no_drift_witness:
  "map_sum id
     (\<lambda>w. (data (fst (wsgi_app \<lparr>send_static_file = (\<lambda>req f. Inl (HTTPException NotFound)),
      get_body = (\<lambda>e. ''error'')\<rparr>
               \<lparr>request_method = ''GET'', path = ''/'',
                query_string = [], headers = [], body = []\<rparr>
               (snd (serve \<lparr>send_static_file = (\<lambda>req f. Inl (HTTPException NotFound)),
                get_body = (\<lambda>e. ''error'')\<rparr> [] w)))),
            data (fst (wsgi_app \<lparr>send_static_file = (\<lambda>req f. Inl (HTTPException NotFound)),
             get_body = (\<lambda>e. ''error'')\<rparr>
               \<lparr>request_method = ''GET'', path = ''/'',
                query_string = ''again=1'', headers = [(''Cookie'', ''k=v'')], body = ''x''\<rparr>
               (snd (serve \<lparr>send_static_file = (\<lambda>req f. Inl (HTTPException NotFound)),
                get_body = (\<lambda>e. ''error'')\<rparr>
                  [\<lparr>request_method = ''POST'', path = ''/'',
                    query_string = [], headers = [], body = ''y''\<rparr>,
                   \<lparr>request_method = ''GET'', path = ''/nonexistent'',
                    query_string = [], headers = [], body = []\<rparr>]
                  w))))))
     (app_py ''app'') =
   Inr (''Hello from my Flask app!'', ''Hello from my Flask app!'')"
proof -
  let ?env = "\<lparr>send_static_file = (\<lambda>req f. Inl (HTTPException NotFound)),
   get_body = (\<lambda>e. ''error'')\<rparr>"
  let ?r1 = "\<lparr>request_method = ''GET'', path = ''/'',
    query_string = [], headers = [], body = []\<rparr>"
  let ?r2 = "\<lparr>request_method = ''GET'', path = ''/'',
    query_string = ''again=1'', headers = [(''Cookie'', ''k=v'')], body = ''x''\<rparr>"
  let ?earlier = "[\<lparr>request_method = ''POST'', path = ''/'',
    query_string = [], headers = [], body = ''y''\<rparr>,
                   \<lparr>request_method = ''GET'', path = ''/nonexistent'',
                    query_string = [], headers = [], body = []\<rparr>]"
  have h: "request_method ?r1 = ''GET''" "path ?r1 = ''/''"
    "request_method ?r2 = ''GET''" "path ?r2 = ''/''"
    by simp_all
  from root_get_no_drift[OF app_py_eq[of "''app''"] app_py_eq[of "''app''"] h,
      of ?env "[]" ?env ?earlier]
  show ?thesis
    by (simp add: app_py_eq)
qed

text \<open>
  C5. The root handler has no side effect and is stateless: \<open>home_page\<close> returns the
  state it was given, and its result does not depend on that state. Hence a request
  routed to it (path \<^verbatim>\<open>/\<close>, method GET or HEAD) leaves the whole program state, the
  application object and the console alike, as it was.
\<close>

theorem home_page_no_side_effects:
  assumes "app_py name = Inr w0" and "path req = ''/''"
    and "request_method req = ''GET'' \<or> request_method req = ''HEAD''"
  shows "snd (home_page w) = w \<and> fst (home_page w) = fst (home_page w') \<and>
         snd (dispatch_request env req w0) = w0 \<and> snd (wsgi_app env req w0) = w0"
proof -
  have "snd (wsgi_app env req w0) = w0"
    using assms(3) wsgi_root_get[OF assms(1) refl assms(2), of env]
      wsgi_root_head[OF assms(1) refl assms(2), of env] by auto
  then show ?thesis
    by (simp add: home_page_def dispatch_request_world)
qed

theorem home_page_no_side_effects_witness:
  "map_sum id
     (\<lambda>w. (snd (home_page w) = w,
            snd (wsgi_app \<lparr>send_static_file = (\<lambda>req f. Inl (HTTPException NotFound)),
             get_body = (\<lambda>e. ''error'')\<rparr>
              \<lparr>request_method = ''GET'', path = ''/'',
               query_string = [], headers = [], body = []\<rparr> w) = w))
     (app_py ''app'') = Inr (True, True)"
proof -
  let ?env = "\<lparr>send_static_file = (\<lambda>req f. Inl (HTTPException NotFound)),
   get_body = (\<lambda>e. ''error'')\<rparr>"
  let ?req = "\<lparr>request_method = ''GET'', path = ''/'',
    query_string = [], headers = [], body = []\<rparr>"
  have h: "path ?req = ''/''" "request_method ?req = ''GET'' \<or> request_method ?req = ''HEAD''"
    by simp_all
  from home_page_no_side_effects[OF app_py_eq[of "''app''"] h, of _ _ ?env]
  show ?thesis
    by (simp add: app_py_eq)
qed

text \<open>
  C6. The root handler cannot fail: \<open>home_page\<close> returns a string and never an
  exception, in every state. Hence for a request routed to it (path \<^verbatim>\<open>/\<close>, method GET
  or HEAD) the dispatch raises nothing, the response is not an error response, and
  nothing is logged.
\<close>

theorem home_page_cannot_fail:
  assumes "app_py name = Inr w0" and "path req = ''/''"
    and "request_method req = ''GET'' \<or> request_method req = ''HEAD''"
  shows "(\<exists>s. fst (home_page w) = Inr (Str s)) \<and>
         (\<exists>v. fst (dispatch_request env req w0) = Inr v) \<and>
         (\<exists>r. fst (full_dispatch_request env req w0) = Inr r \<and> status_code r = 200) \<and>
         console (snd (wsgi_app env req w0)) = console w0"
proof -
  have "snd (wsgi_app env req w0) = w0"
    using assms(3) wsgi_root_get[OF assms(1) refl assms(2), of env]
      wsgi_root_head[OF assms(1) refl assms(2), of env] by auto
  then show ?thesis
    by (simp add: home_page_def full_dispatch_request_def
          dispatch_root_view[OF assms(1) refl assms(2,3)])
qed

theorem home_page_cannot_fail_witness:
  "map_sum id
     (\<lambda>w. (fst (home_page w),
            fst (full_dispatch_request
              \<lparr>send_static_file = (\<lambda>req f. Inl (HTTPException NotFound)),
               get_body = (\<lambda>e. ''error'')\<rparr>
              \<lparr>request_method = ''GET'', path = ''/'',
               query_string = [], headers = [], body = []\<rparr> w)))
     (app_py ''app'') =
   Inr (Inr (Str ''Hello from my Flask app!''),
        Inr \<lparr>status_code = 200, mimetype = ''text/html'', allow = {},
             data = ''Hello from my Flask app!''\<rparr>)"
proof -
  let ?env = "\<lparr>send_static_file = (\<lambda>req f. Inl (HTTPException NotFound)),
   get_body = (\<lambda>e. ''error'')\<rparr>"
  let ?req = "\<lparr>request_method = ''GET'', path = ''/'',
    query_string = [], headers = [], body = []\<rparr>"
  have h: "path ?req = ''/''" "request_method ?req = ''GET'' \<or> request_method ?req = ''HEAD''"
    by simp_all
  from home_page_cannot_fail[OF app_py_eq[of "''app''"] h, of _ ?env]
  show ?thesis
    by (simp add: app_py_eq home_page_def full_dispatch_request_def dispatch_request_def
          match_rules_def path_part_def request_path_def)
qed

text \<open>
  C10. The root handler's result does not depend on the request: \<open>home_page\<close> is not
  given the request at all, and any two requests routed to it (path \<^verbatim>\<open>/\<close>, method GET
  or HEAD), whatever their query strings, headers and bodies, make the dispatch return
  the same string.
\<close>

theorem home_page_ignores_request:
  assumes "app_py name = Inr w"
    and "path r1 = ''/''" and "request_method r1 = ''GET'' \<or> request_method r1 = ''HEAD''"
    and "path r2 = ''/''" and "request_method r2 = ''GET'' \<or> request_method r2 = ''HEAD''"
  shows "fst (dispatch_request env1 r1 w) = Inr (Str ''Hello from my Flask app!'') \<and>
         fst (dispatch_request env2 r2 w) = fst (dispatch_request env1 r1 w)"
  by (simp add: dispatch_root_view[OF assms(1) refl assms(2,3)]
        dispatch_root_view[OF assms(1) refl assms(4,5)])

theorem home_page_ignores_request_witness:
  "map_sum id
     (\<lambda>w. (fst (dispatch_request
               \<lparr>send_static_file = (\<lambda>req f. Inl (HTTPException NotFound)),
                get_body = (\<lambda>e. ''error'')\<rparr>
               \<lparr>request_method = ''GET'', path = ''/'',
                query_string = ''lang=en'', headers = [(''Accept'', ''*/*'')], body = []\<rparr> w),
            fst (dispatch_request
               \<lparr>send_static_file = (\<lambda>req f. Inl (HTTPException NotFound)),
                get_body = (\<lambda>e. ''error'')\<rparr>
               \<lparr>request_method = ''HEAD'', path = ''/'',
                query_string = ''name=World'', headers = [(''Cookie'', ''k=v'')], body = ''payload''\<rparr> w)))
     (app_py ''app'') =
   Inr (Inr (Str ''Hello from my Flask app!''), Inr (Str ''Hello from my Flask app!''))"
proof -
  let ?env = "\<lparr>send_static_file = (\<lambda>req f. Inl (HTTPException NotFound)),
   get_body = (\<lambda>e. ''error'')\<rparr>"
  let ?r1 = "\<lparr>request_method = ''GET'', path = ''/'',
    query_string = ''lang=en'', headers = [(''Accept'', ''*/*'')], body = []\<rparr>"
  let ?r2 = "\<lparr>request_method = ''HEAD'', path = ''/'',
    query_string = ''name=World'', headers = [(''Cookie'', ''k=v'')], body = ''payload''\<rparr>"
  have h: "path ?r1 = ''/''" "request_method ?r1 = ''GET'' \<or> request_method ?r1 = ''HEAD''"
    "path ?r2 = ''/''" "request_method ?r2 = ''GET'' \<or> request_method ?r2 = ''HEAD''"
    by simp_all
  from home_page_ignores_request[OF app_py_eq[of "''app''"] h, of ?env ?env]
  show ?thesis
    by (simp add: app_py_eq)
qed


text \<open>
  C3, as stated, fails: a HEAD request to \<^verbatim>\<open>/\<close> is not the pair (GET, \<^verbatim>\<open>/\<close>), and it
  is answered with status 200, because a rule that allows GET allows HEAD too.
\<close>

theorem head_root_is_200:
  "(''HEAD'', ''/'') \<noteq> (''GET'', ''/'') \<and>
   map_sum id
     (\<lambda>w. status_code (fst (wsgi_app
        \<lparr>send_static_file = (\<lambda>req f. Inl (HTTPException NotFound)),
      get_body = (\<lambda>e. ''error'')\<rparr>
        \<lparr>request_method = ''HEAD'', path = ''/'',
      query_string = [], headers = [], body = []\<rparr> w)))
     (app_py ''app'') = Inr 200"
  by (simp add: app_py_eq wsgi_app_def full_dispatch_request_def dispatch_request_def
        match_rules_def path_part_def request_path_def home_page_def)

text \<open>
  A static-file path is the other kind of request that can be answered with 200: when
  the file exists, a GET to \<^verbatim>\<open>/static/a.css\<close> returns it.
\<close>

lemma static_file_can_be_200:
  "map_sum id
     (\<lambda>w. status_code (fst (wsgi_app
        \<lparr>send_static_file = (\<lambda>req f. Inr \<lparr>status_code = 200, mimetype = ''text/css'',
        allow = {}, data = ''body {}''\<rparr>),
      get_body = (\<lambda>e. ''error'')\<rparr>
        \<lparr>request_method = ''GET'', path = ''/static/a.css'',
      query_string = [], headers = [], body = []\<rparr> w)))
     (app_py ''app'') = Inr 200"
  by (simp add: app_py_eq wsgi_app_def full_dispatch_request_def dispatch_request_def
        match_rules_def path_part_def request_path_def)

text \<open>
  C3, amended. Write \<open>p\<close> for the request's path with its leading slashes replaced by
  one. A request is answered with a status other than 200 (the framework's 404, 405, or
  a 308 redirect) unless its method is GET, HEAD or OPTIONS and \<open>p\<close> is \<^verbatim>\<open>/\<close> or a
  static-file path, that is \<^verbatim>\<open>/static/\<close> followed by a file path. In particular a
  request whose method is none of the three, on \<^verbatim>\<open>/\<close> or on a static-file path, is
  answered with 405. This holds after any requests served before. (The method is
  compared in upper case, so a method written in lower case is not taken for a
  different one.)
\<close>

theorem other_requests_not_200:
  assumes "app_py name = Inr w"
  shows "(\<not> (upper (request_method req) \<in> {''GET'', ''HEAD'', ''OPTIONS''} \<and>
             (path_part (path req) = ''/'' \<or>
              (\<exists>f. path_part (path req) = ''/static/'' @ f \<and> f \<noteq> [] \<and> hd f \<noteq> CHR ''/'')))
          \<longrightarrow> status_code (fst (wsgi_app env req (snd (serve env' earlier w))))
                \<in> {308, 404, 405}) \<and>
         (upper (request_method req) \<notin> {''GET'', ''HEAD'', ''OPTIONS''} \<and>
            (path_part (path req) = ''/'' \<or>
             (\<exists>f. path_part (path req) = ''/static/'' @ f \<and> f \<noteq> [] \<and> hd f \<noteq> CHR ''/''))
          \<longrightarrow> status_code (fst (wsgi_app env req (snd (serve env' earlier w)))) = 405)"
proof (intro conjI impI)
  let ?w = "snd (serve env' earlier w)"
  let ?p = "path_part (path req)"
  let ?m = "request_method req"
  have a: "app ?w = app w" by (rule serve_app)
  have up: "?m \<in> {''GET'', ''HEAD'', ''OPTIONS''} \<Longrightarrow> upper ?m = ?m"
    by (auto simp: upper_methods)
  assume out': "\<not> (upper ?m \<in> {''GET'', ''HEAD'', ''OPTIONS''} \<and>
      (?p = ''/'' \<or> (\<exists>f. ?p = ''/static/'' @ f \<and> f \<noteq> [] \<and> hd f \<noteq> CHR ''/'')))"
  with up have out: "\<not> (?m \<in> {''GET'', ''HEAD'', ''OPTIONS''} \<and>
      (?p = ''/'' \<or> (\<exists>f. ?p = ''/static/'' @ f \<and> f \<noteq> [] \<and> hd f \<noteq> CHR ''/'')))"
    by metis
  have "\<exists>e. match_rules (url_map (app ?w)) ?p ?m = Inl e"
  proof (cases "?m \<in> {''GET'', ''HEAD'', ''OPTIONS''}")
    case False
    then have "?m \<notin> {''HEAD'', ''OPTIONS'', ''GET''}" by auto
    then show ?thesis by (rule match_not_allowed[OF assms a])
  next
    case True
    with out have root: "?p \<noteq> ''/''"
      and ns: "\<not> (\<exists>f. ?p = ''/static/'' @ f \<and> f \<noteq> [] \<and> hd f \<noteq> CHR ''/'')" by blast+
    from ns have "match_pattern (Path_arg ''/static/'' ''filename'') ?p = None"
      using static_match_None_iff[of ?p] by blast
    with root show ?thesis by (rule match_no_rule[OF assms a])
  qed
  then obtain e where e: "match_rules (url_map (app ?w)) ?p ?m = Inl e" by blast
  from match_rules_Inl_code[OF e] wsgi_routing_exception(1)[OF e, of env]
  show "status_code (fst (wsgi_app env req ?w)) \<in> {308, 404, 405}" by auto
next
  let ?w = "snd (serve env' earlier w)"
  let ?p = "path_part (path req)"
  let ?m = "request_method req"
  have a: "app ?w = app w" by (rule serve_app)
  have up: "?m \<in> {''GET'', ''HEAD'', ''OPTIONS''} \<Longrightarrow> upper ?m = ?m"
    by (auto simp: upper_methods)
  assume h: "upper ?m \<notin> {''GET'', ''HEAD'', ''OPTIONS''} \<and>
      (?p = ''/'' \<or> (\<exists>f. ?p = ''/static/'' @ f \<and> f \<noteq> [] \<and> hd f \<noteq> CHR ''/''))"
  with up have "?m \<notin> {''GET'', ''HEAD'', ''OPTIONS''}" by metis
  then have m: "?m \<notin> {''HEAD'', ''OPTIONS'', ''GET''}" by auto
  have "match_rules (url_map (app ?w)) ?p ?m =
      Inl (MethodNotAllowed {''HEAD'', ''OPTIONS'', ''GET''})"
  proof (cases "?p = ''/''")
    case True
    with match_root[OF assms a, of ?m] m show ?thesis by simp
  next
    case False
    with h obtain f where "?p = ''/static/'' @ f \<and> f \<noteq> [] \<and> hd f \<noteq> CHR ''/''" by blast
    then have "match_pattern (Path_arg ''/static/'' ''filename'') ?p = Some [(''filename'', f)]"
      using static_match_iff[of ?p "[(''filename'', f)]"] by blast
    then show ?thesis using m by (rule match_static_not_allowed[OF assms a])
  qed
  from wsgi_routing_exception(1)[OF this, of env]
  show "status_code (fst (wsgi_app env req ?w)) = 405" by simp
qed

text \<open>
  The two requests the specification names, POST \<^verbatim>\<open>/\<close> and GET \<^verbatim>\<open>/nonexistent\<close>; a
  POST to a static-file path; and two paths that are redirected: a static-file path
  with a doubled slash, and the empty path.
\<close>

theorem other_requests_not_200_witness:
  "map_sum id
     (\<lambda>w. map (\<lambda>req. status_code (fst (wsgi_app
        \<lparr>send_static_file = (\<lambda>req f. Inl (HTTPException NotFound)),
      get_body = (\<lambda>e. ''error'')\<rparr> req
        (snd (serve
          \<lparr>send_static_file = (\<lambda>req f. Inl (HTTPException NotFound)),
      get_body = (\<lambda>e. ''error'')\<rparr> [] w)))))
        [\<lparr>request_method = ''POST'', path = ''/'',
      query_string = [], headers = [], body = []\<rparr>,
         \<lparr>request_method = ''GET'', path = ''/nonexistent'',
      query_string = [], headers = [], body = []\<rparr>,
         \<lparr>request_method = ''POST'', path = ''/static/a.css'',
      query_string = [], headers = [], body = []\<rparr>,
         \<lparr>request_method = ''GET'', path = ''/static//a.css'',
      query_string = [], headers = [], body = []\<rparr>,
         \<lparr>request_method = ''GET'', path = [],
      query_string = [], headers = [], body = []\<rparr>])
     (app_py ''app'') = Inr [405, 404, 405, 308, 308]"
proof -
  let ?env = "\<lparr>send_static_file = (\<lambda>req f. Inl (HTTPException NotFound)),
      get_body = (\<lambda>e. ''error'')\<rparr>"
  let ?post = "\<lparr>request_method = ''POST'', path = ''/'',
      query_string = [], headers = [], body = []\<rparr>"
  let ?get = "\<lparr>request_method = ''GET'', path = ''/nonexistent'',
      query_string = [], headers = [], body = []\<rparr>"
  let ?posts = "\<lparr>request_method = ''POST'', path = ''/static/a.css'',
      query_string = [], headers = [], body = []\<rparr>"
  have h1: "upper (request_method ?post) \<notin> {''GET'', ''HEAD'', ''OPTIONS''} \<and>
      (path_part (path ?post) = ''/'' \<or>
       (\<exists>f. path_part (path ?post) = ''/static/'' @ f \<and> f \<noteq> [] \<and> hd f \<noteq> CHR ''/''))"
    by (simp add: path_part_def request_path_def upper_def upper_char_def)
  have h2: "\<not> (upper (request_method ?get) \<in> {''GET'', ''HEAD'', ''OPTIONS''} \<and>
      (path_part (path ?get) = ''/'' \<or>
       (\<exists>f. path_part (path ?get) = ''/static/'' @ f \<and> f \<noteq> [] \<and> hd f \<noteq> CHR ''/'')))"
    by (simp add: path_part_def request_path_def upper_def upper_char_def)
  have h3: "upper (request_method ?posts) \<notin> {''GET'', ''HEAD'', ''OPTIONS''} \<and>
      (path_part (path ?posts) = ''/'' \<or>
       (\<exists>f. path_part (path ?posts) = ''/static/'' @ f \<and> f \<noteq> [] \<and> hd f \<noteq> CHR ''/''))"
    by (simp add: path_part_def request_path_def upper_def upper_char_def)
  from other_requests_not_200[OF app_py_eq[of "''app''"], of ?post ?env ?env "[]"]
    other_requests_not_200[OF app_py_eq[of "''app''"], of ?get ?env ?env "[]"]
    other_requests_not_200[OF app_py_eq[of "''app''"], of ?posts ?env ?env "[]"] h1 h2 h3
  show ?thesis
    by (simp add: app_py_eq wsgi_app_def full_dispatch_request_def dispatch_request_def
          match_rules_def path_part_def request_path_def get_response_def)
qed

text \<open>
  C7, as stated, fails: the URL map of the imported application holds two rules, not
  one. The first is the static-file rule that the constructor \<^verbatim>\<open>Flask(__name__)\<close>
  registers by default.
\<close>

theorem url_map_has_two_rules:
  "map_sum id (\<lambda>w. map pattern (url_map (app w))) (app_py ''app'') =
     Inr [Path_arg ''/static/'' ''filename'', Literal ''/'']"
  by (simp add: app_py_eq)

text \<open>
  C7, amended. Importing the module builds a URL map of exactly two rules: the
  framework's static-file rule and the one rule that \<^verbatim>\<open>app.py\<close> registers, from the
  path \<^verbatim>\<open>/\<close> to the endpoint of \<open>home_page\<close>. Serving requests, any number of any
  kind, never changes the application object, so the map stays as built.
\<close>

theorem url_map_static:
  assumes "app_py name = Inr w"
  shows "map (\<lambda>r. (pattern r, endpoint r)) (url_map (app w)) =
           [(Path_arg ''/static/'' ''filename'', ''static''), (Literal ''/'', ''home_page'')] \<and>
         view_functions (app w) ''home_page'' = Some View_home_page \<and>
         view_functions (app w) ''static'' = Some View_send_static_file \<and>
         app (snd (serve env reqs w)) = app w"
  by (simp add: app_py_app[OF assms refl] serve_app)

theorem url_map_static_witness:
  "map_sum id
     (\<lambda>w. (map (\<lambda>r. (pattern r, endpoint r)) (url_map (app w)),
            map (\<lambda>r. (pattern r, endpoint r)) (url_map (app (snd (serve
              \<lparr>send_static_file = (\<lambda>req f. Inl (HTTPException NotFound)),
               get_body = (\<lambda>e. ''error'')\<rparr>
              [\<lparr>request_method = ''GET'', path = ''/'',
                query_string = [], headers = [], body = []\<rparr>,
               \<lparr>request_method = ''PUT'', path = ''/x'',
                query_string = [], headers = [], body = []\<rparr>]
              w))))))
     (app_py ''app'') =
   Inr ([(Path_arg ''/static/'' ''filename'', ''static''), (Literal ''/'', ''home_page'')],
        [(Path_arg ''/static/'' ''filename'', ''static''), (Literal ''/'', ''home_page'')])"
proof -
  let ?env = "\<lparr>send_static_file = (\<lambda>req f. Inl (HTTPException NotFound)),
   get_body = (\<lambda>e. ''error'')\<rparr>"
  let ?reqs = "[\<lparr>request_method = ''GET'', path = ''/'',
    query_string = [], headers = [], body = []\<rparr>,
               \<lparr>request_method = ''PUT'', path = ''/x'',
                query_string = [], headers = [], body = []\<rparr>]"
  from url_map_static[OF app_py_eq[of "''app''"], of ?env ?reqs]
  show ?thesis
    by (simp add: app_py_eq)
qed

text \<open>
  C9. On the path \<^verbatim>\<open>/\<close> the route accepts GET, HEAD and OPTIONS and nothing else:
  HEAD is answered with status 200 and an empty body, OPTIONS with status 200 and the
  list of allowed methods, GET with status 200, and every other method with 405.
\<close>

theorem root_methods:
  assumes "app_py name = Inr w" and "path req = ''/''"
  shows "(request_method req = ''HEAD'' \<longrightarrow>
            status_code (fst (wsgi_app env req w)) = 200 \<and>
            data (fst (wsgi_app env req w)) = []) \<and>
         (request_method req = ''OPTIONS'' \<longrightarrow>
            status_code (fst (wsgi_app env req w)) = 200 \<and>
            allow (fst (wsgi_app env req w)) = {''GET'', ''HEAD'', ''OPTIONS''}) \<and>
         (request_method req = ''GET'' \<longrightarrow> status_code (fst (wsgi_app env req w)) = 200) \<and>
         (request_method req \<notin> {''GET'', ''HEAD'', ''OPTIONS''} \<longrightarrow>
            status_code (fst (wsgi_app env req w)) = 405 \<and>
            allow (fst (wsgi_app env req w)) = {''GET'', ''HEAD'', ''OPTIONS''})"
proof (intro conjI impI)
  assume "request_method req = ''HEAD''"
  from wsgi_root_head[OF assms(1) refl assms(2) this]
  show "status_code (fst (wsgi_app env req w)) = 200" "data (fst (wsgi_app env req w)) = []"
    by simp_all
next
  assume "request_method req = ''OPTIONS''"
  from wsgi_root_options[OF assms(1) refl assms(2) this]
  show "status_code (fst (wsgi_app env req w)) = 200"
    "allow (fst (wsgi_app env req w)) = {''GET'', ''HEAD'', ''OPTIONS''}"
    by auto
next
  assume "request_method req = ''GET''"
  from wsgi_root_get[OF assms(1) refl assms(2) this]
  show "status_code (fst (wsgi_app env req w)) = 200" by simp
next
  assume "request_method req \<notin> {''GET'', ''HEAD'', ''OPTIONS''}"
  from wsgi_root_other[OF assms(1) refl assms(2) this]
  show "status_code (fst (wsgi_app env req w)) = 405"
    "allow (fst (wsgi_app env req w)) = {''GET'', ''HEAD'', ''OPTIONS''}"
    by auto
qed

text \<open>HEAD, OPTIONS and DELETE on \<^verbatim>\<open>/\<close>: status and body of each response.\<close>

theorem root_methods_witness:
  "map_sum id
     (\<lambda>w. map (\<lambda>m. (status_code (fst (wsgi_app
                 \<lparr>send_static_file = (\<lambda>req f. Inl (HTTPException NotFound)),
                  get_body = (\<lambda>e. ''error'')\<rparr>
                 \<lparr>request_method = m, path = ''/'',
                  query_string = [], headers = [], body = []\<rparr> w)),
               data (fst (wsgi_app
                 \<lparr>send_static_file = (\<lambda>req f. Inl (HTTPException NotFound)),
                  get_body = (\<lambda>e. ''error'')\<rparr>
                 \<lparr>request_method = m, path = ''/'',
                  query_string = [], headers = [], body = []\<rparr> w))))
        [''HEAD'', ''OPTIONS'', ''DELETE''])
     (app_py ''app'') = Inr [(200, []), (200, []), (405, ''error'')]"
proof -
  let ?env = "\<lparr>send_static_file = (\<lambda>req f. Inl (HTTPException NotFound)),
   get_body = (\<lambda>e. ''error'')\<rparr>"
  let ?req = "\<lambda>m. \<lparr>request_method = m, path = ''/'',
    query_string = [], headers = [], body = []\<rparr>"
  have p: "\<And>m. path (?req m) = ''/''" by simp
  from root_methods[OF app_py_eq[of "''app''"] p[of "''HEAD''"], of ?env]
    root_methods[OF app_py_eq[of "''app''"] p[of "''OPTIONS''"], of ?env]
    root_methods[OF app_py_eq[of "''app''"] p[of "''DELETE''"], of ?env]
  show ?thesis
    by (simp add: app_py_eq wsgi_app_def full_dispatch_request_def dispatch_request_def
          match_rules_def path_part_def request_path_def allowed_methods_def
          home_page_def make_default_options_response_def get_response_def)
qed

end
